theory Spec2Isabelle
  imports Complex_Main
begin

section \<open>Geospatial transforms of rasterio (rasterio/transform.py)\<close>

text \<open>
  Coordinates are Python floats in the source. They are embedded as \<^typ>\<open>real\<close>: the
  arithmetic of this development is exact, so nothing here speaks about IEEE rounding.
\<close>

subsection \<open>The affine matrix\<close>

text \<open>
  \<open>Affine(a, b, c, d, e, f)\<close> of the \<open>affine\<close> package, the matrix
  \<open>[[a, b, c], [d, e, f], [0, 0, 1]]\<close>. The package is a dependency of the module; the
  operations the module calls on it are written out below.
\<close>

datatype Affine = Affine real real real real real real

datatype exn =
    TransformError
  | ValueError
  | TypeError
  | IndexError
  | KeyError
  | TransformNotInvertibleError

definition IDENTITY :: Affine where
  "IDENTITY = Affine 1 0 0 0 1 0"

definition Affine_translation :: "real \<Rightarrow> real \<Rightarrow> Affine" where
  "Affine_translation xoff yoff = Affine 1 0 xoff 0 1 yoff"

definition Affine_scale :: "real \<Rightarrow> real \<Rightarrow> Affine" where
  "Affine_scale sx sy = Affine sx 0 0 0 sy 0"

fun Affine_mul :: "Affine \<Rightarrow> Affine \<Rightarrow> Affine" where
  "Affine_mul (Affine sa sb sc sd se sf) (Affine oa ob oc od oe off) =
     Affine (sa * oa + sb * od) (sa * ob + sb * oe) (sa * oc + sb * off + sc)
            (sd * oa + se * od) (sd * ob + se * oe) (sd * oc + se * off + sf)"

fun Affine_apply :: "Affine \<Rightarrow> real \<times> real \<Rightarrow> real \<times> real" where
  "Affine_apply (Affine sa sb sc sd se sf) (vx, vy) =
     (vx * sa + vy * sb + sc, vx * sd + vy * se + sf)"

fun determinant :: "Affine \<Rightarrow> real" where
  "determinant (Affine sa sb sc sd se sf) = sa * se - sb * sd"

definition is_degenerate :: "Affine \<Rightarrow> bool" where
  "is_degenerate t = (determinant t = 0)"

text \<open>\<open>~t\<close>: the package raises its own \<open>TransformNotInvertibleError\<close> on a degenerate matrix.\<close>

fun Affine_invert :: "Affine \<Rightarrow> exn + Affine" where
  "Affine_invert (Affine sa sb sc sd se sf) =
     (if is_degenerate (Affine sa sb sc sd se sf) then Inl TransformNotInvertibleError
      else
        let idet = 1 / determinant (Affine sa sb sc sd se sf);
            ra = se * idet;
            rb = - sb * idet;
            rd = - sd * idet;
            re = sa * idet
        in Inr (Affine ra rb (- sc * ra - sf * rb) rd re (- sc * rd - sf * re)))"

subsection \<open>Module functions on affine matrices\<close>

definition from_origin :: "real \<Rightarrow> real \<Rightarrow> real \<Rightarrow> real \<Rightarrow> Affine" where
  "from_origin west north xsize ysize =
     Affine_mul (Affine_translation west north) (Affine_scale xsize (- ysize))"

definition from_bounds :: "real \<Rightarrow> real \<Rightarrow> real \<Rightarrow> real \<Rightarrow> real \<Rightarrow> real \<Rightarrow> Affine" where
  "from_bounds west south east north width height =
     Affine_mul (Affine_translation west north)
       (Affine_scale ((east - west) / width) ((south - north) / height))"

text \<open>
  \<open>array_bounds(height, width, transform)\<close>; the result is the tuple
  \<open>(west, south, east, north)\<close>. The test \<open>b == d == 0\<close> is Python's chained comparison.
\<close>

fun array_bounds :: "real \<Rightarrow> real \<Rightarrow> Affine \<Rightarrow> real \<times> real \<times> real \<times> real" where
  "array_bounds height width (Affine a b c d e f) =
     (if b = d \<and> d = 0 then (c, f + e * height, c + a * width, f)
      else
        let c0 = (c, f);
            c1 = Affine_apply (Affine a b c d e f) (0, height);
            c2 = Affine_apply (Affine a b c d e f) (width, height);
            c3 = Affine_apply (Affine a b c d e f) (width, 0);
            xs = [fst c0, fst c1, fst c2, fst c3];
            ys = [snd c0, snd c1, snd c2, snd c3]
        in (Min (set xs), Min (set ys), Max (set xs), Max (set ys)))"

subsection \<open>Coordinate arguments and numpy broadcasting\<close>

text \<open>
  A coordinate argument of \<open>xy\<close> or \<open>rowcol\<close> is a Python number, a Python sequence of
  numbers, or an array with a shape (row-major data). Only the number lacks \<open>__iter__\<close>.
\<close>

datatype pyarg = Scalar real | Seq "real list" | NDArray "nat list" "real list"

fun has_iter :: "pyarg \<Rightarrow> bool" where
  "has_iter (Scalar v) = False"
| "has_iter (Seq vs) = True"
| "has_iter (NDArray sh vs) = True"

fun has_iter_opt :: "pyarg option \<Rightarrow> bool" where
  "has_iter_opt None = False"
| "has_iter_opt (Some z) = has_iter z"

fun np_shape :: "pyarg \<Rightarrow> nat list" where
  "np_shape (Scalar v) = []"
| "np_shape (Seq vs) = [length vs]"
| "np_shape (NDArray sh vs) = sh"

fun np_data :: "pyarg \<Rightarrow> real list" where
  "np_data (Scalar v) = [v]"
| "np_data (Seq vs) = vs"
| "np_data (NDArray sh vs) = vs"


text \<open>\<open>np.atleast_1d\<close>: a zero-dimensional value becomes an array of shape \<open>(1,)\<close>.\<close>

definition atleast_1d :: "pyarg \<Rightarrow> pyarg" where
  "atleast_1d x = (if np_shape x = [] then NDArray [1] (np_data x) else NDArray (np_shape x) (np_data x))"

text \<open>
  numpy's broadcasting of two shapes, aligned at the last axis (the lists are reversed):
  two extents agree when they are equal or one of them is 1.
\<close>

fun broadcast_rev :: "nat list \<Rightarrow> nat list \<Rightarrow> nat list option" where
  "broadcast_rev [] ys = Some ys"
| "broadcast_rev (x # xs) [] = Some (x # xs)"
| "broadcast_rev (x # xs) (y # ys) =
     (if x = y \<or> y = 1 then map_option ((#) x) (broadcast_rev xs ys)
      else if x = 1 then map_option ((#) y) (broadcast_rev xs ys)
      else None)"

definition broadcast_shapes :: "nat list \<Rightarrow> nat list \<Rightarrow> nat list option" where
  "broadcast_shapes s t = map_option rev (broadcast_rev (rev s) (rev t))"

text \<open>\<open>np.broadcast(...)\<close> of two and of three operands; numpy raises \<open>ValueError\<close> on a mismatch.\<close>

definition np_broadcast2 :: "nat list \<Rightarrow> nat list \<Rightarrow> exn + nat list" where
  "np_broadcast2 s t = (case broadcast_shapes s t of None \<Rightarrow> Inl ValueError | Some r \<Rightarrow> Inr r)"

definition np_broadcast3 :: "nat list \<Rightarrow> nat list \<Rightarrow> nat list \<Rightarrow> exn + nat list" where
  "np_broadcast3 s t u =
     (case broadcast_shapes s t of None \<Rightarrow> Inl ValueError | Some r \<Rightarrow> np_broadcast2 r u)"

text \<open>
  The assignment \<open>row[:] = v\<close> into a row of \<open>n\<close> cells: \<open>v\<close> is spread when it has no axis
  or one axis of extent 1, copied when its one axis has extent \<open>n\<close>, and numpy raises
  \<open>ValueError\<close> otherwise.
\<close>

definition set_row :: "nat \<Rightarrow> nat list \<Rightarrow> real list \<Rightarrow> exn + real list" where
  "set_row n sh vs =
     (if sh = [] \<or> (sh = [1] \<and> n \<noteq> 1) then Inr (replicate n (hd vs))
      else if sh = [n] then Inr vs
      else Inl ValueError)"

text \<open>
  \<open>TransformerBase._ensure_arr_input(xs, ys, zs=None)\<close>. The \<open>ValueError\<close> of
  \<open>np.broadcast\<close> is re-raised as \<open>TransformError\<close>; the three returned rows are those of
  \<open>pts\<close>, whose third row stays zero when \<open>zs\<close> is \<open>None\<close>.
\<close>

definition ensure_arr_input ::
  "pyarg \<Rightarrow> pyarg \<Rightarrow> pyarg option \<Rightarrow> exn + (real list \<times> real list \<times> real list)" where
  "ensure_arr_input xs ys zs =
     (let xs1 = atleast_1d xs in
      case (case zs of
              None \<Rightarrow> np_broadcast2 (np_shape xs1) (np_shape ys)
            | Some z \<Rightarrow> np_broadcast3 (np_shape xs1) (np_shape ys) (np_shape z)) of
        Inl err \<Rightarrow> Inl TransformError
      | Inr b \<Rightarrow>
          if length b \<noteq> 1 then Inl TransformError
          else
            let n = prod_list b in
            (case set_row n (np_shape xs1) (np_data xs1) of
               Inl err \<Rightarrow> Inl err
             | Inr pts0 \<Rightarrow>
                 (case set_row n (np_shape ys) (np_data ys) of
                    Inl err \<Rightarrow> Inl err
                  | Inr pts1 \<Rightarrow>
                      (case zs of
                         None \<Rightarrow> Inr (pts0, pts1, replicate n 0)
                       | Some z \<Rightarrow>
                           (case set_row n (np_shape z) (np_data z) of
                              Inl err \<Rightarrow> Inl err
                            | Inr pts2 \<Rightarrow> Inr (pts0, pts1, pts2))))))"

subsection \<open>Transformers\<close>

datatype TransformDirection = forward | reverse

text \<open>
  \<open>AffineTransformer._transform\<close>: the rows \<open>xs\<close>, \<open>ys\<close> and a row of ones are multiplied
  by the matrix, or by its inverse in the reverse direction; \<open>zs\<close> is not used. The
  input matrix is filled before the inverse is taken.
\<close>

fun matmul_rows :: "Affine \<Rightarrow> real list \<Rightarrow> real list \<Rightarrow> real list \<times> real list" where
  "matmul_rows (Affine a b c d e f) xs ys =
     (map (\<lambda>(x, y). a * x + b * y + c * 1) (zip xs ys),
      map (\<lambda>(x, y). d * x + e * y + f * 1) (zip xs ys))"

definition AffineTransformer_transform ::
  "Affine \<Rightarrow> real list \<Rightarrow> real list \<Rightarrow> real list \<Rightarrow> TransformDirection \<Rightarrow>
   exn + (real list \<times> real list)" where
  "AffineTransformer_transform t xs ys zs transform_direction =
     (case set_row (length xs) [length ys] ys of
        Inl err \<Rightarrow> Inl err
      | Inr row1 \<Rightarrow>
          (case (if transform_direction = forward then Inr t else Affine_invert t) of
             Inl err \<Rightarrow> Inl err
           | Inr m \<Rightarrow> Inr (matmul_rows m xs row1)))"

text \<open>
  The evaluation of a GCP or RPC transformer is done by \<open>rasterio._transform\<close> on a
  native handle; it is a parameter here, a function from the three rows and the direction
  to the two result rows or an exception.
\<close>

type_synonym engine =
  "real list \<Rightarrow> real list \<Rightarrow> real list \<Rightarrow> TransformDirection \<Rightarrow> exn + (real list \<times> real list)"

datatype transformer =
    AffineTransformer Affine
  | RPCTransformer engine
  | GCPTransformer engine

fun transform_of :: "transformer \<Rightarrow> engine" where
  "transform_of (AffineTransformer t) = AffineTransformer_transform t"
| "transform_of (RPCTransformer ev) = ev"
| "transform_of (GCPTransformer ev) = ev"

text \<open>The handler \<open>except TypeError: raise TransformError("Invalid inputs")\<close>.\<close>

definition except_TypeError :: "exn + 'a \<Rightarrow> exn + 'a" where
  "except_TypeError r = (case r of Inl err \<Rightarrow> (if err = TypeError then Inl TransformError else Inl err) | Inr v \<Rightarrow> Inr v)"

text \<open>The two shapes of a result: a pair of values, or a pair of lists.\<close>

datatype 'a shaped = Single 'a 'a | Many "'a list" "'a list"

text \<open>\<open>vs[0]\<close>, which raises \<open>IndexError\<close> on an empty row.\<close>

definition item0 :: "'a list \<Rightarrow> exn + 'a" where
  "item0 vs = (case vs of [] \<Rightarrow> Inl IndexError | v # _ \<Rightarrow> Inr v)"

text \<open>The \<open>if\<close>/\<open>elif\<close> chain on \<open>offset\<close> in \<open>xy\<close>, giving \<open>(coff, roff)\<close>.\<close>

definition offset_fractions :: "string \<Rightarrow> (real \<times> real) option" where
  "offset_fractions offset =
     (if offset = ''center'' then Some (1 / 2, 1 / 2)
      else if offset = ''ul'' then Some (0, 0)
      else if offset = ''ur'' then Some (1, 0)
      else if offset = ''ll'' then Some (0, 1)
      else if offset = ''lr'' then Some (1, 1)
      else None)"

text \<open>\<open>TransformerBase.xy(rows, cols, zs=None, offset='center')\<close>.\<close>

definition TransformerBase_xy ::
  "transformer \<Rightarrow> pyarg \<Rightarrow> pyarg \<Rightarrow> pyarg option \<Rightarrow> string \<Rightarrow> exn + real shaped" where
  "TransformerBase_xy self rows cols zs offset =
     (let AS_ARR = has_iter rows in
      case ensure_arr_input rows cols zs of
        Inl err \<Rightarrow> Inl err
      | Inr (rows1, cols1, zs1) \<Rightarrow>
          (case offset_fractions offset of
             None \<Rightarrow> Inl TransformError
           | Some (coff, roff) \<Rightarrow>
               except_TypeError
                 (case AffineTransformer_transform (Affine_translation coff roff)
                         cols1 rows1 zs1 forward of
                    Inl err \<Rightarrow> Inl err
                  | Inr (offset_cols, offset_rows) \<Rightarrow>
                      (case transform_of self offset_cols offset_rows zs1 forward of
                         Inl err \<Rightarrow> Inl err
                       | Inr (new_xs, new_ys) \<Rightarrow>
                           if length new_xs = 1 \<and> \<not> AS_ARR then
                             (case item0 new_xs of
                                Inl err \<Rightarrow> Inl err
                              | Inr x \<Rightarrow>
                                  (case item0 new_ys of
                                     Inl err \<Rightarrow> Inl err
                                   | Inr y \<Rightarrow> Inr (Single x y)))
                           else Inr (Many new_xs new_ys)))))"

text \<open>
  The rounding function \<open>op\<close> of \<open>rowcol\<close>: a numpy ufunc is applied to the whole rows in
  place, any other callable is mapped over them; both are elementwise.
\<close>

datatype 'i rounding = Callable "real \<Rightarrow> 'i" | Ufunc "real \<Rightarrow> 'i"

fun call_op :: "'i rounding \<Rightarrow> real \<Rightarrow> 'i" where
  "call_op (Callable g) v = g v"
| "call_op (Ufunc g) v = g v"

datatype warning = RasterioDeprecationWarning

text \<open>
  \<open>TransformerBase.rowcol(xs, ys, zs=None, op=math.floor, precision=None)\<close>. The first
  component of the result is the list of warnings issued, the second the outcome.
\<close>

definition TransformerBase_rowcol ::
  "transformer \<Rightarrow> pyarg \<Rightarrow> pyarg \<Rightarrow> pyarg option \<Rightarrow> 'i rounding \<Rightarrow> int option \<Rightarrow>
   warning list \<times> (exn + 'i shaped)" where
  "TransformerBase_rowcol self xs ys zs op precision =
     ((if precision \<noteq> None then [RasterioDeprecationWarning] else []),
      (let AS_ARR = (has_iter xs \<or> has_iter ys \<or> has_iter_opt zs) in
       case ensure_arr_input xs ys zs of
         Inl err \<Rightarrow> Inl err
       | Inr (xs1, ys1, zs1) \<Rightarrow>
           (case except_TypeError (transform_of self xs1 ys1 zs1 reverse) of
              Inl err \<Rightarrow> Inl err
            | Inr (new_cols, new_rows) \<Rightarrow>
                if AS_ARR then
                  (case op of
                     Ufunc g \<Rightarrow> Inr (Many (map g new_rows) (map g new_cols))
                   | Callable g \<Rightarrow> Inr (Many (map g new_rows) (map g new_cols)))
                else
                  (case item0 new_rows of
                     Inl err \<Rightarrow> Inl err
                   | Inr r \<Rightarrow>
                       (case item0 new_cols of
                          Inl err \<Rightarrow> Inl err
                        | Inr c \<Rightarrow> Inr (Single (call_op op r) (call_op op c)))))))"

subsection \<open>Constructors\<close>

text \<open>
  The objects a caller may pass as \<open>transform\<close>: \<open>None\<close>, a number, an \<open>Affine\<close>, an \<open>RPC\<close>
  (its coefficients), a \<open>GroundControlPoint\<close> (row, col, x, y, z), a dict and a list.
\<close>

datatype pyobj =
    PyNone
  | PyNumber real
  | PyAffine Affine
  | PyRPC "real list"
  | PyGroundControlPoint real real real real real
  | PyDict "(pyobj \<times> pyobj) list"
  | PyList "pyobj list"

fun is_Affine :: "pyobj \<Rightarrow> bool" where
  "is_Affine (PyAffine t) = True"
| "is_Affine other = False"

fun is_RPC :: "pyobj \<Rightarrow> bool" where
  "is_RPC (PyRPC cs) = True"
| "is_RPC other = False"

fun is_dict :: "pyobj \<Rightarrow> bool" where
  "is_dict (PyDict kvs) = True"
| "is_dict other = False"

fun is_GroundControlPoint :: "pyobj \<Rightarrow> bool" where
  "is_GroundControlPoint (PyGroundControlPoint r c x y z) = True"
| "is_GroundControlPoint other = False"

text \<open>\<open>len(obj)\<close> and \<open>obj[0]\<close>, with the exceptions Python raises.\<close>

fun py_len :: "pyobj \<Rightarrow> exn + nat" where
  "py_len (PyList vs) = Inr (length vs)"
| "py_len (PyDict kvs) = Inr (length kvs)"
| "py_len other = Inl TypeError"

fun py_getitem0 :: "pyobj \<Rightarrow> exn + pyobj" where
  "py_getitem0 (PyList vs) = item0 vs"
| "py_getitem0 (PyDict kvs) =
     (case map_of kvs (PyNumber 0) of None \<Rightarrow> Inl KeyError | Some v \<Rightarrow> Inr v)"
| "py_getitem0 other = Inl TypeError"

text \<open>
  The state outside the module that a constructor can touch: the number of native
  transformer handles acquired so far. The base classes \<open>RPCTransformerBase\<close> and
  \<open>GCPTransformerBase\<close> and the environment context come from compiled parts of the
  package; their constructors, which make the evaluation function, and the two context
  hooks are parameters.
\<close>

type_synonym world = nat

type_synonym rpc_options = "(string \<times> string) list"

record gdal =
  RPCTransformerBase_init :: "pyobj \<Rightarrow> rpc_options \<Rightarrow> world \<Rightarrow> (exn + engine) \<times> world"
  GCPTransformerBase_init :: "pyobj \<Rightarrow> bool \<Rightarrow> world \<Rightarrow> (exn + engine) \<times> world"
  enter_context :: "world \<Rightarrow> world"
  exit_context :: "world \<Rightarrow> world"

definition AffineTransformer_init :: "pyobj \<Rightarrow> world \<Rightarrow> (exn + transformer) \<times> world" where
  "AffineTransformer_init affine_transform w =
     (case affine_transform of
        PyAffine t \<Rightarrow> (Inr (AffineTransformer t), w)
      | _ \<Rightarrow> (Inl ValueError, w))"

definition RPCTransformer_init ::
  "gdal \<Rightarrow> pyobj \<Rightarrow> rpc_options \<Rightarrow> world \<Rightarrow> (exn + transformer) \<times> world" where
  "RPCTransformer_init g rpcs opts w =
     (if \<not> (is_RPC rpcs \<or> is_dict rpcs) then (Inl ValueError, w)
      else
        (case RPCTransformerBase_init g rpcs opts w of
           (Inl err, w1) \<Rightarrow> (Inl err, w1)
         | (Inr ev, w1) \<Rightarrow> (Inr (RPCTransformer ev), w1)))"

definition GCPTransformer_super ::
  "gdal \<Rightarrow> pyobj \<Rightarrow> bool \<Rightarrow> world \<Rightarrow> (exn + transformer) \<times> world" where
  "GCPTransformer_super g gcps tps w =
     (case GCPTransformerBase_init g gcps tps w of
        (Inl err, w1) \<Rightarrow> (Inl err, w1)
      | (Inr ev, w1) \<Rightarrow> (Inr (GCPTransformer ev), w1))"

text \<open>
  \<open>GCPTransformer.__init__(gcps, tps=False)\<close>: the guard
  \<open>len(gcps) and not isinstance(gcps[0], GroundControlPoint)\<close> evaluates \<open>gcps[0]\<close> only
  when the length is not zero.
\<close>

definition GCPTransformer_init ::
  "gdal \<Rightarrow> pyobj \<Rightarrow> bool \<Rightarrow> world \<Rightarrow> (exn + transformer) \<times> world" where
  "GCPTransformer_init g gcps tps w =
     (case py_len gcps of
        Inl err \<Rightarrow> (Inl err, w)
      | Inr n \<Rightarrow>
          if n \<noteq> 0 then
            (case py_getitem0 gcps of
               Inl err \<Rightarrow> (Inl err, w)
             | Inr g0 \<Rightarrow>
                 if \<not> is_GroundControlPoint g0 then (Inl ValueError, w)
                 else GCPTransformer_super g gcps tps w)
          else GCPTransformer_super g gcps tps w)"

text \<open>\<open>get_transformer(transform, **rpc_options)\<close> returns the constructor, not yet called.\<close>

definition get_transformer ::
  "gdal \<Rightarrow> pyobj \<Rightarrow> rpc_options \<Rightarrow> exn + (world \<Rightarrow> (exn + transformer) \<times> world)" where
  "get_transformer g transform opts =
     (if transform = PyNone then Inl ValueError
      else if is_Affine transform then Inr (AffineTransformer_init transform)
      else if is_RPC transform then Inr (RPCTransformer_init g transform opts)
      else Inr (GCPTransformer_init g transform False))"

text \<open>
  \<open>__enter__\<close> and \<open>__exit__\<close>: those of \<open>TransformerBase\<close> do nothing, those of
  \<open>GDALTransformerBase\<close> enter the environment context and close it again.
\<close>

fun transformer_enter :: "gdal \<Rightarrow> transformer \<Rightarrow> world \<Rightarrow> world" where
  "transformer_enter g (AffineTransformer t) w = w"
| "transformer_enter g other w = enter_context g w"

fun transformer_exit :: "gdal \<Rightarrow> transformer \<Rightarrow> world \<Rightarrow> world" where
  "transformer_exit g (AffineTransformer t) w = w"
| "transformer_exit g other w = exit_context g w"

text \<open>The module functions \<open>xy\<close> and \<open>rowcol\<close>: the transformer is made, used once and left.\<close>

definition xy ::
  "gdal \<Rightarrow> pyobj \<Rightarrow> pyarg \<Rightarrow> pyarg \<Rightarrow> pyarg option \<Rightarrow> string \<Rightarrow> rpc_options \<Rightarrow> world \<Rightarrow>
   (exn + real shaped) \<times> world" where
  "xy g transform rows cols zs offset opts w =
     (case get_transformer g transform opts of
        Inl err \<Rightarrow> (Inl err, w)
      | Inr transformer_cls \<Rightarrow>
          (case transformer_cls w of
             (Inl err, w1) \<Rightarrow> (Inl err, w1)
           | (Inr transformer, w1) \<Rightarrow>
               (TransformerBase_xy transformer rows cols zs offset,
                transformer_exit g transformer (transformer_enter g transformer w1))))"

definition rowcol ::
  "gdal \<Rightarrow> pyobj \<Rightarrow> pyarg \<Rightarrow> pyarg \<Rightarrow> pyarg option \<Rightarrow> 'i rounding \<Rightarrow> int option \<Rightarrow>
   rpc_options \<Rightarrow> world \<Rightarrow> (warning list \<times> (exn + 'i shaped)) \<times> world" where
  "rowcol g transform xs ys zs op precision opts w =
     (let warned = (if precision \<noteq> None then [RasterioDeprecationWarning] else []) in
      case get_transformer g transform opts of
        Inl err \<Rightarrow> ((warned, Inl err), w)
      | Inr transformer_cls \<Rightarrow>
          (case transformer_cls w of
             (Inl err, w1) \<Rightarrow> ((warned, Inl err), w1)
           | (Inr transformer, w1) \<Rightarrow>
               (case TransformerBase_rowcol transformer xs ys zs op None of
                  (warned1, res) \<Rightarrow>
                    ((warned @ warned1, res),
                     transformer_exit g transformer (transformer_enter g transformer w1)))))"




section \<open>Auxiliary facts\<close>

subsection \<open>Broadcasting to one axis\<close>

lemma broadcast_rev_Nil: "broadcast_rev xs ys = Some [] \<Longrightarrow> xs = [] \<and> ys = []"
  by (cases xs; cases ys) (auto split: if_splits)

lemma broadcast_rev_single:
  "broadcast_rev xs ys = Some [n] \<Longrightarrow>
     (xs = [] \<or> xs = [1] \<or> xs = [n]) \<and> (ys = [] \<or> ys = [1] \<or> ys = [n])"
  by (cases xs; cases ys) (auto split: if_splits dest: broadcast_rev_Nil)

lemma rev_eq_single: "rev xs = [a] \<longleftrightarrow> xs = [a]"
  by (metis rev_singleton_conv)

lemma broadcast_shapes_Nil: "broadcast_shapes s t = Some [] \<Longrightarrow> s = [] \<and> t = []"
  by (auto simp: broadcast_shapes_def dest: broadcast_rev_Nil)

lemma broadcast_shapes_single:
  "broadcast_shapes s t = Some [n] \<Longrightarrow>
     (s = [] \<or> s = [1] \<or> s = [n]) \<and> (t = [] \<or> t = [1] \<or> t = [n])"
  using broadcast_rev_single [of "rev s" "rev t" n]
  by (auto simp: broadcast_shapes_def rev_eq_single)

lemma set_row_ok: "sh = [] \<or> sh = [1] \<or> sh = [n] \<Longrightarrow> \<exists>r. set_row n sh vs = Inr r"
  by (auto simp: set_row_def)

lemma np_broadcast2_single:
  "np_broadcast2 s t = Inr [n] \<Longrightarrow>
     (s = [] \<or> s = [1] \<or> s = [n]) \<and> (t = [] \<or> t = [1] \<or> t = [n])"
  by (auto simp: np_broadcast2_def split: option.splits dest: broadcast_shapes_single)

lemma np_broadcast3_single:
  assumes "np_broadcast3 s t u = Inr [n]"
  shows "(s = [] \<or> s = [1] \<or> s = [n]) \<and> (t = [] \<or> t = [1] \<or> t = [n])
         \<and> (u = [] \<or> u = [1] \<or> u = [n])"
proof -
  from assms obtain r where r: "broadcast_shapes s t = Some r" and b: "np_broadcast2 r u = Inr [n]"
    by (auto simp: np_broadcast3_def split: option.splits)
  from np_broadcast2_single [OF b] have ru: "r = [] \<or> r = [1] \<or> r = [n]" and u: "u = [] \<or> u = [1] \<or> u = [n]"
    by auto
  from ru r have "(s = [] \<or> s = [1] \<or> s = [n]) \<and> (t = [] \<or> t = [1] \<or> t = [n])"
    by (auto dest: broadcast_shapes_Nil broadcast_shapes_single)
  with u show ?thesis by simp
qed

lemma ensure_arr_input_error:
  "ensure_arr_input xs ys zs = Inl err \<Longrightarrow> err = TransformError"
proof (cases zs)
  case None
  assume a: "ensure_arr_input xs ys zs = Inl err"
  show ?thesis
  proof (cases "np_broadcast2 (np_shape (atleast_1d xs)) (np_shape ys)")
    case (Inl e)
    with a None show ?thesis by (simp add: ensure_arr_input_def Let_def)
  next
    case (Inr b)
    show ?thesis
    proof (cases "length b = 1")
      case False
      with a None Inr show ?thesis by (simp add: ensure_arr_input_def Let_def)
    next
      case True
      then obtain n where b: "b = [n]" by (cases b) auto
      from np_broadcast2_single [OF Inr [unfolded b]]
      obtain r0 r1 where "set_row n (np_shape (atleast_1d xs)) (np_data (atleast_1d xs)) = Inr r0"
        "set_row n (np_shape ys) (np_data ys) = Inr r1"
        using set_row_ok by meson
      with a None Inr b show ?thesis by (simp add: ensure_arr_input_def Let_def)
    qed
  qed
next
  case (Some z)
  assume a: "ensure_arr_input xs ys zs = Inl err"
  show ?thesis
  proof (cases "np_broadcast3 (np_shape (atleast_1d xs)) (np_shape ys) (np_shape z)")
    case (Inl e)
    with a Some show ?thesis by (simp add: ensure_arr_input_def Let_def)
  next
    case (Inr b)
    show ?thesis
    proof (cases "length b = 1")
      case False
      with a Some Inr show ?thesis by (simp add: ensure_arr_input_def Let_def)
    next
      case True
      then obtain n where b: "b = [n]" by (cases b) auto
      from np_broadcast3_single [OF Inr [unfolded b]]
      obtain r0 r1 r2 where "set_row n (np_shape (atleast_1d xs)) (np_data (atleast_1d xs)) = Inr r0"
        "set_row n (np_shape ys) (np_data ys) = Inr r1"
        "set_row n (np_shape z) (np_data z) = Inr r2"
        using set_row_ok by meson
      with a Some Inr b show ?thesis by (simp add: ensure_arr_input_def Let_def)
    qed
  qed
qed

subsection \<open>Rows of equal length\<close>





subsection \<open>Unfolding for evaluation\<close>

lemmas xy_eval =
  TransformerBase_xy_def ensure_arr_input_def atleast_1d_def np_broadcast2_def
  np_broadcast3_def broadcast_shapes_def set_row_def offset_fractions_def
  AffineTransformer_transform_def Affine_translation_def except_TypeError_def item0_def
  Let_def

lemmas rowcol_eval =
  TransformerBase_rowcol_def ensure_arr_input_def atleast_1d_def np_broadcast2_def
  np_broadcast3_def broadcast_shapes_def set_row_def
  AffineTransformer_transform_def except_TypeError_def item0_def is_degenerate_def
  Let_def

subsection \<open>An offset that is not in the table\<close>

lemma xy_invalid_offset:
  assumes "offset \<notin> {''center'', ''ul'', ''ur'', ''ll'', ''lr''}"
  shows "TransformerBase_xy self rows cols zs offset = Inl TransformError"
proof (cases "ensure_arr_input rows cols zs")
  case (Inl err)
  then have "err = TransformError" by (rule ensure_arr_input_error)
  with Inl show ?thesis by (simp add: TransformerBase_xy_def)
next
  case (Inr pts)
  from assms have "offset_fractions offset = None" by (simp add: offset_fractions_def)
  with Inr show ?thesis by (simp add: TransformerBase_xy_def split: prod.splits)
qed

subsection \<open>The shape of a result\<close>

lemma xy_iterable_rows:
  "has_iter rows \<Longrightarrow> TransformerBase_xy self rows cols zs offset = Inr res \<Longrightarrow> \<exists>vs ws. res = Many vs ws"
  by (auto simp: TransformerBase_xy_def except_TypeError_def Let_def
           split: sum.splits option.splits prod.splits if_splits)

lemma xy_scalar_rows:
  "\<not> has_iter rows \<Longrightarrow> TransformerBase_xy self rows cols zs offset = Inr (Many vs ws) \<Longrightarrow> length vs \<noteq> 1"
  by (auto simp: TransformerBase_xy_def except_TypeError_def Let_def
           split: sum.splits option.splits prod.splits if_splits)

lemma rowcol_any_iterable:
  "has_iter xs \<or> has_iter ys \<or> has_iter_opt zs \<Longrightarrow>
   snd (TransformerBase_rowcol self xs ys zs op precision) = Inr res \<Longrightarrow> \<exists>rs cs. res = Many rs cs"
  by (auto simp: TransformerBase_rowcol_def Let_def
           split: sum.splits prod.splits rounding.splits)

lemma rowcol_no_iterable:
  "\<not> (has_iter xs \<or> has_iter ys \<or> has_iter_opt zs) \<Longrightarrow>
   snd (TransformerBase_rowcol self xs ys zs op precision) = Inr res \<Longrightarrow> \<exists>r c. res = Single r c"
  by (auto simp: TransformerBase_rowcol_def Let_def
           split: sum.splits prod.splits)

lemma xy_scalar_row_one_col:
  assumes "offset_fractions offset = Some (coff, roff)"
    and "transform_of self [c + coff] [r + roff] [0] forward = Inr ([x], [y])"
  shows "TransformerBase_xy self (Scalar r) (Seq [c]) None offset = Inr (Single x y)"
proof -
  have "ensure_arr_input (Scalar r) (Seq [c]) None = Inr ([r], [c], [0])"
    by (simp add: ensure_arr_input_def atleast_1d_def np_broadcast2_def broadcast_shapes_def
          set_row_def Let_def)
  moreover have "AffineTransformer_transform (Affine_translation coff roff) [c] [r] [0] forward
      = Inr ([c + coff], [r + roff])"
    by (simp add: AffineTransformer_transform_def Affine_translation_def set_row_def)
  ultimately show ?thesis using assms
    by (simp add: TransformerBase_xy_def except_TypeError_def item0_def)
qed

subsection \<open>Inverse after forward, in exact arithmetic\<close>

text \<open>
  Over the reals the inverse matrix undoes the matrix, so the corner of a pixel goes back
  to its own row and column. The source computes in double precision, where the rounding of
  the products and of the inverse's coefficients can move the result below the integer;
  this fact is about the exact arithmetic only.
\<close>

lemma inverse_after_forward:
  fixes a b c d e f x y :: real
  assumes det: "a * e - b * d \<noteq> 0"
  shows "e * (1 / (a * e - b * d)) * (a * x + b * y + c) + - b * (1 / (a * e - b * d)) * (d * x + e * y + f)
           + (- c * (e * (1 / (a * e - b * d))) - f * (- b * (1 / (a * e - b * d)))) = x"
    and "- d * (1 / (a * e - b * d)) * (a * x + b * y + c) + a * (1 / (a * e - b * d)) * (d * x + e * y + f)
           + (- c * (- d * (1 / (a * e - b * d))) - f * (a * (1 / (a * e - b * d)))) = y"
proof -
  define k where "k = a * e - b * d"
  have k: "k \<noteq> 0" using det by (simp add: k_def)
  have nx: "e * (a * x + b * y + c) - b * (d * x + e * y + f) - c * e + f * b = k * x"
    by (simp add: k_def algebra_simps)
  have ny: "a * (d * x + e * y + f) - d * (a * x + b * y + c) + c * d - f * a = k * y"
    by (simp add: k_def algebra_simps)
  have "e * (1 / k) * (a * x + b * y + c) + - b * (1 / k) * (d * x + e * y + f)
           + (- c * (e * (1 / k)) - f * (- b * (1 / k)))
        = (e * (a * x + b * y + c) - b * (d * x + e * y + f) - c * e + f * b) / k"
    by (simp add: diff_divide_distrib add_divide_distrib)
  also have "\<dots> = x" using k by (simp add: nx)
  finally show "e * (1 / (a * e - b * d)) * (a * x + b * y + c) + - b * (1 / (a * e - b * d)) * (d * x + e * y + f)
           + (- c * (e * (1 / (a * e - b * d))) - f * (- b * (1 / (a * e - b * d)))) = x"
    by (simp add: k_def)
  have "- d * (1 / k) * (a * x + b * y + c) + a * (1 / k) * (d * x + e * y + f)
           + (- c * (- d * (1 / k)) - f * (a * (1 / k)))
        = (a * (d * x + e * y + f) - d * (a * x + b * y + c) + c * d - f * a) / k"
    by (simp add: diff_divide_distrib add_divide_distrib)
  also have "\<dots> = y" using k by (simp add: ny)
  finally show "- d * (1 / (a * e - b * d)) * (a * x + b * y + c) + a * (1 / (a * e - b * d)) * (d * x + e * y + f)
           + (- c * (- d * (1 / (a * e - b * d))) - f * (a * (1 / (a * e - b * d)))) = y"
    by (simp add: k_def)
qed

lemma round_trip_exact_arithmetic:
  assumes "\<not> is_degenerate (Affine a b c d e f)"
  shows "TransformerBase_xy (AffineTransformer (Affine a b c d e f))
           (Scalar (of_int row)) (Scalar (of_int col)) None ''ul''
         = Inr (Single (a * of_int col + b * of_int row + c) (d * of_int col + e * of_int row + f))"
    and "snd (TransformerBase_rowcol (AffineTransformer (Affine a b c d e f))
           (Scalar (a * of_int col + b * of_int row + c)) (Scalar (d * of_int col + e * of_int row + f))
           None (Callable floor) None)
         = Inr (Single row col)"
proof -
  show "TransformerBase_xy (AffineTransformer (Affine a b c d e f))
           (Scalar (of_int row)) (Scalar (of_int col)) None ''ul''
         = Inr (Single (a * of_int col + b * of_int row + c) (d * of_int col + e * of_int row + f))"
    by (simp add: xy_eval)
  from assms have det: "a * e - b * d \<noteq> 0" by (simp add: is_degenerate_def)
  have inv: "Affine_invert (Affine a b c d e f) =
    Inr (Affine (e * (1 / (a * e - b * d))) (- b * (1 / (a * e - b * d)))
           (- c * (e * (1 / (a * e - b * d))) - f * (- b * (1 / (a * e - b * d))))
           (- d * (1 / (a * e - b * d))) (a * (1 / (a * e - b * d)))
           (- c * (- d * (1 / (a * e - b * d))) - f * (a * (1 / (a * e - b * d)))))"
    using det by (simp add: is_degenerate_def Let_def)
  have tr: "AffineTransformer_transform (Affine a b c d e f)
      [a * of_int col + b * of_int row + c] [d * of_int col + e * of_int row + f] [0] reverse
      = Inr ([of_int col], [of_int row])"
    using inverse_after_forward [OF det, of "of_int col" "of_int row" c f]
    by (simp add: AffineTransformer_transform_def set_row_def inv del: Affine_invert.simps)
  have en: "ensure_arr_input (Scalar (a * of_int col + b * of_int row + c))
      (Scalar (d * of_int col + e * of_int row + f)) None
      = Inr ([a * of_int col + b * of_int row + c], [d * of_int col + e * of_int row + f], [0])"
    by (simp add: ensure_arr_input_def atleast_1d_def np_broadcast2_def broadcast_shapes_def
          set_row_def Let_def)
  show "snd (TransformerBase_rowcol (AffineTransformer (Affine a b c d e f))
           (Scalar (a * of_int col + b * of_int row + c)) (Scalar (d * of_int col + e * of_int row + f))
           None (Callable floor) None)
         = Inr (Single row col)"
    by (simp add: TransformerBase_rowcol_def en tr except_TypeError_def item0_def)
qed

section \<open>Properties\<close>

text \<open>
  C7. \<open>array_bounds(2, 2, from_origin(0, 10, 1, 1))\<close> is \<open>(0, 8, 2, 10)\<close>, read as
  (west, south, east, north).
\<close>

theorem array_bounds_from_origin_example:
  "array_bounds 2 2 (from_origin 0 10 1 1) = (0, 8, 2, 10)"
  by (simp add: from_origin_def Affine_translation_def Affine_scale_def)



text \<open>
  C6. For \<open>T = from_origin(0, 10, 2, 2)\<close>, \<open>xy(T, 0, 0)\<close> is \<open>(0, 10)\<close> with offset \<open>ul\<close>,
  \<open>(1, 9)\<close> with offset \<open>center\<close> and \<open>(2, 8)\<close> with offset \<open>lr\<close>; and for every
  transformer and every input, an offset that is none of \<open>center\<close>, \<open>ul\<close>, \<open>ur\<close>, \<open>ll\<close>,
  \<open>lr\<close> makes \<open>xy\<close> raise \<open>TransformError\<close>.
\<close>

theorem xy_offset_table:
  "TransformerBase_xy (AffineTransformer (from_origin 0 10 2 2)) (Scalar 0) (Scalar 0) None ''ul''
     = Inr (Single 0 10)
   \<and> TransformerBase_xy (AffineTransformer (from_origin 0 10 2 2)) (Scalar 0) (Scalar 0) None ''center''
     = Inr (Single 1 9)
   \<and> TransformerBase_xy (AffineTransformer (from_origin 0 10 2 2)) (Scalar 0) (Scalar 0) None ''lr''
     = Inr (Single 2 8)
   \<and> (\<forall>self rows cols zs offset.
         offset \<notin> {''center'', ''ul'', ''ur'', ''ll'', ''lr''} \<longrightarrow>
         TransformerBase_xy self rows cols zs offset = Inl TransformError)"
proof (intro conjI allI impI)
  show "TransformerBase_xy (AffineTransformer (from_origin 0 10 2 2)) (Scalar 0) (Scalar 0) None ''ul''
     = Inr (Single 0 10)"
    by (simp add: xy_eval from_origin_def Affine_scale_def)
  show "TransformerBase_xy (AffineTransformer (from_origin 0 10 2 2)) (Scalar 0) (Scalar 0) None ''center''
     = Inr (Single 1 9)"
    by (simp add: xy_eval from_origin_def Affine_scale_def)
  show "TransformerBase_xy (AffineTransformer (from_origin 0 10 2 2)) (Scalar 0) (Scalar 0) None ''lr''
     = Inr (Single 2 8)"
    by (simp add: xy_eval from_origin_def Affine_scale_def)
next
  fix self rows cols zs and offset :: string
  assume "offset \<notin> {''center'', ''ul'', ''ur'', ''ll'', ''lr''}"
  then show "TransformerBase_xy self rows cols zs offset = Inl TransformError"
    by (rule xy_invalid_offset)
qed

theorem xy_offset_table_witness:
  "TransformerBase_xy (AffineTransformer IDENTITY) (Seq [1, 2]) (Scalar 3) None ''bogus''
     = Inl TransformError"
  using xy_offset_table by simp

text \<open>
  C2. \<open>xy(T, [0, 1], [0])\<close>, with two rows and one column, is to raise \<open>TransformError\<close>,
  as is every mismatch of shapes. Evaluated, the call returns two points for every affine
  transform: the one-element \<open>cols\<close> is broadcast against the two rows, where the docstring
  of \<open>_ensure_arr_input\<close> has inputs that are not all of the same length raise.
\<close>

theorem xy_mismatched_lengths_evaluated:
  "TransformerBase_xy (AffineTransformer (Affine a b c d e f)) (Seq [0, 1]) (Seq [0]) None ''center''
     = Inr (Many [a * (1 / 2) + b * (1 / 2) + c, a * (1 / 2) + b * (3 / 2) + c]
                 [d * (1 / 2) + e * (1 / 2) + f, d * (1 / 2) + e * (3 / 2) + f])"
  by (simp add: xy_eval)

text \<open>
  C5. \<open>xy\<close> is to return a plain pair when \<open>row\<close> and \<open>col\<close> are scalars and one point
  results, and two sequences otherwise. Evaluated at a scalar row and a one-element
  sequence of columns, \<open>xy\<close> returns a plain pair: it tests \<open>rows\<close> alone, where \<open>rowcol\<close>
  tests every argument.
\<close>

theorem xy_scalar_row_sequence_col_evaluated:
  "TransformerBase_xy (AffineTransformer IDENTITY) (Scalar 0) (Seq [5]) None ''center''
     = Inr (Single (11 / 2) (1 / 2))"
  by (simp add: xy_eval IDENTITY_def)




text \<open>
  C8. The \<open>precision\<close> parameter of \<open>rowcol\<close>, of the method and of the module function,
  is accepted, makes the call issue one \<open>RasterioDeprecationWarning\<close> when it is not
  \<open>None\<close>, and changes neither the returned rows and columns (or the exception) nor the
  state left behind.
\<close>

theorem rowcol_precision_no_effect:
  "snd (TransformerBase_rowcol self xs ys zs op (Some p)) = snd (TransformerBase_rowcol self xs ys zs op None)
   \<and> fst (TransformerBase_rowcol self xs ys zs op (Some p)) = [RasterioDeprecationWarning]
   \<and> fst (TransformerBase_rowcol self xs ys zs op None) = []
   \<and> snd (fst (rowcol g transform xs ys zs op (Some p) opts w)) = snd (fst (rowcol g transform xs ys zs op None opts w))
   \<and> snd (rowcol g transform xs ys zs op (Some p) opts w) = snd (rowcol g transform xs ys zs op None opts w)
   \<and> fst (fst (rowcol g transform xs ys zs op (Some p) opts w)) = [RasterioDeprecationWarning]
   \<and> fst (fst (rowcol g transform xs ys zs op None opts w)) = []"
  by (simp add: TransformerBase_rowcol_def rowcol_def Let_def split: sum.splits prod.splits)

text \<open>
  C9. The shape of the result of \<open>xy\<close> depends on \<open>rows\<close> alone, not on \<open>cols\<close> or \<open>zs\<close>:
  with a scalar row and a one-element sequence of columns, as in \<open>xy(T, 0, [5])\<close>, the
  result is a plain pair, for every affine transformer and for every other transformer
  whose evaluation returns the one point; with an iterable \<open>rows\<close> every result is a pair
  of sequences, and with a scalar \<open>rows\<close> a pair of sequences is returned only when the
  number of points is not one. \<open>rowcol\<close> tests all of \<open>xs\<close>, \<open>ys\<close> and \<open>zs\<close>: one iterable
  among them gives sequences, none gives a plain pair.
\<close>

theorem xy_shaping_tests_rows_only:
  "TransformerBase_xy (AffineTransformer (Affine a b c0 d e f)) (Scalar r) (Seq [c]) None ''center''
     = Inr (Single (a * (c + 1 / 2) + b * (r + 1 / 2) + c0) (d * (c + 1 / 2) + e * (r + 1 / 2) + f))
   \<and> (offset_fractions offset = Some (coff, roff)
        \<and> transform_of self [c + coff] [r + roff] [0] forward = Inr ([x], [y])
      \<longrightarrow> TransformerBase_xy self (Scalar r) (Seq [c]) None offset = Inr (Single x y))
   \<and> (has_iter rows \<and> TransformerBase_xy self rows cols zs offset = Inr res
      \<longrightarrow> (\<exists>vs ws. res = Many vs ws))
   \<and> (\<not> has_iter rows \<and> TransformerBase_xy self rows cols zs offset = Inr (Many new_xs new_ys)
      \<longrightarrow> length new_xs \<noteq> 1)
   \<and> ((has_iter xs \<or> has_iter ys \<or> has_iter_opt zs)
        \<and> snd (TransformerBase_rowcol self xs ys zs op precision) = Inr res1
      \<longrightarrow> (\<exists>rs cs. res1 = Many rs cs))
   \<and> (\<not> (has_iter xs \<or> has_iter ys \<or> has_iter_opt zs)
        \<and> snd (TransformerBase_rowcol self xs ys zs op precision) = Inr res1
      \<longrightarrow> (\<exists>rw cl. res1 = Single rw cl))"
proof (intro conjI impI)
  show "TransformerBase_xy (AffineTransformer (Affine a b c0 d e f)) (Scalar r) (Seq [c]) None ''center''
     = Inr (Single (a * (c + 1 / 2) + b * (r + 1 / 2) + c0) (d * (c + 1 / 2) + e * (r + 1 / 2) + f))"
    by (simp add: xy_eval)
next
  assume "offset_fractions offset = Some (coff, roff)
        \<and> transform_of self [c + coff] [r + roff] [0] forward = Inr ([x], [y])"
  then show "TransformerBase_xy self (Scalar r) (Seq [c]) None offset = Inr (Single x y)"
    by (simp add: xy_scalar_row_one_col)
next
  assume "has_iter rows \<and> TransformerBase_xy self rows cols zs offset = Inr res"
  then show "\<exists>vs ws. res = Many vs ws"
    using xy_iterable_rows by blast
next
  assume "\<not> has_iter rows \<and> TransformerBase_xy self rows cols zs offset = Inr (Many new_xs new_ys)"
  then show "length new_xs \<noteq> 1"
    using xy_scalar_rows by blast
next
  assume "(has_iter xs \<or> has_iter ys \<or> has_iter_opt zs)
        \<and> snd (TransformerBase_rowcol self xs ys zs op precision) = Inr res1"
  then show "\<exists>rs cs. res1 = Many rs cs"
    using rowcol_any_iterable [of xs ys zs self op precision res1] by blast
next
  assume "\<not> (has_iter xs \<or> has_iter ys \<or> has_iter_opt zs)
        \<and> snd (TransformerBase_rowcol self xs ys zs op precision) = Inr res1"
  then show "\<exists>rw cl. res1 = Single rw cl"
    using rowcol_no_iterable [of xs ys zs self op precision res1] by blast
qed

theorem xy_shaping_tests_rows_only_witness:
  "TransformerBase_xy (AffineTransformer IDENTITY) (Scalar 0) (Seq [5]) None ''ul'' = Inr (Single 5 0)
   \<and> (\<exists>vs ws. TransformerBase_xy (AffineTransformer IDENTITY) (Seq [0]) (Scalar 5) None ''ul'' = Inr (Many vs ws))
   \<and> TransformerBase_xy (AffineTransformer IDENTITY) (Scalar 0) (Seq [5, 6]) None ''ul'' = Inr (Many [5, 6] [0, 0])
   \<and> (\<exists>rs cs. snd (TransformerBase_rowcol (AffineTransformer IDENTITY) (Scalar 5) (Seq [0]) None
                    (Callable floor) None) = Inr (Many rs cs))
   \<and> (\<exists>rw cl. snd (TransformerBase_rowcol (AffineTransformer IDENTITY) (Scalar 5) (Scalar 0) None
                    (Callable floor) None) = Inr (Single rw cl))"
proof -
  have h1: "offset_fractions ''ul'' = Some (0, 0)
      \<and> transform_of (AffineTransformer IDENTITY) [5 + 0] [0 + 0] [0] forward = Inr ([5], [0])"
    by (simp add: offset_fractions_def AffineTransformer_transform_def set_row_def IDENTITY_def)
  have h2: "has_iter (Seq [0])
      \<and> TransformerBase_xy (AffineTransformer IDENTITY) (Seq [0]) (Scalar 5) None ''ul'' = Inr (Many [5] [0])"
    by (simp add: xy_eval IDENTITY_def)
  have h3: "\<not> has_iter (Scalar 0)
      \<and> TransformerBase_xy (AffineTransformer IDENTITY) (Scalar 0) (Seq [5, 6]) None ''ul''
          = Inr (Many [5, 6] [0, 0])"
    by (simp add: xy_eval IDENTITY_def)
  have h4: "(has_iter (Scalar 5) \<or> has_iter (Seq [0]) \<or> has_iter_opt None)
      \<and> snd (TransformerBase_rowcol (AffineTransformer IDENTITY) (Scalar 5) (Seq [0]) None
               (Callable floor) None) = Inr (Many [0] [5])"
    by (simp add: rowcol_eval IDENTITY_def)
  have h5: "\<not> (has_iter (Scalar 5) \<or> has_iter (Scalar 0) \<or> has_iter_opt None)
      \<and> snd (TransformerBase_rowcol (AffineTransformer IDENTITY) (Scalar 5) (Scalar 0) None
               (Callable floor) None) = Inr (Single 0 5)"
    by (simp add: rowcol_eval IDENTITY_def)
  note t = xy_shaping_tests_rows_only
    [of 1 0 0 0 1 0 0 5 "''ul''" 0 0 "AffineTransformer IDENTITY" 5 0]
  from t h1 have c1: "TransformerBase_xy (AffineTransformer IDENTITY) (Scalar 0) (Seq [5]) None ''ul''
      = Inr (Single 5 0)"
    by blast
  from h2 h3 h4 h5 c1 show ?thesis by simp
qed




end
